theory Spec2Isabelle
  imports Complex_Main "HOL-Library.Word" "HOL-Library.AList" "HOL-Library.List_Lexorder"
    "HOL-Library.Char_ord"
begin

section \<open>Python runtime values used by the viewer backend\<close>

text \<open>
  The backend is Python. Exceptions are values: every function that can raise returns
  \<open>py_error + 'a\<close>, with \<open>Inl\<close> carrying the exception class. The design document names
  the failures by role; in the code \<open>ValueError\<close> is what it calls InvalidInput,
  InvalidRange and NoSurfaceFound, and \<open>RuntimeError\<close> is what it calls ProcessingError
  and EmptySeries.

  Python \<open>int\<close> is \<open>int\<close>. Python \<open>float\<close> and NumPy \<open>float32\<close> are represented by
  \<open>real\<close>: the arithmetic of the model is exact, rounding is not part of it. The concrete
  scenarios evaluated below use values that binary floating point represents exactly.
\<close>

datatype py_error =
    ValueError
  | RuntimeError
  | IndexError
  | KeyError
  | TypeError
  | ZeroDivisionError
  | FileNotFoundError
  | OSError
  | InvalidDicomError
  | SitkError
  | HTTPException nat

text \<open>\<open>xs[i]\<close> on a Python list: negative indices count from the end, out of range raises.\<close>

definition py_index :: "'a list \<Rightarrow> int \<Rightarrow> py_error + 'a" where
  "py_index xs i =
     (if 0 \<le> i \<and> i < int (length xs) then Inr (xs ! nat i)
      else if i < 0 \<and> - int (length xs) \<le> i then Inr (xs ! nat (int (length xs) + i))
      else Inl IndexError)"

text \<open>\<open>min(iterable, key=f)\<close>: the first element whose key is minimal; empty raises.\<close>

fun min_from :: "('a \<Rightarrow> 'b::linorder) \<Rightarrow> 'a \<Rightarrow> 'a list \<Rightarrow> 'a" where
  "min_from key best [] = best"
| "min_from key best (x # xs) = min_from key (if key x < key best then x else best) xs"

definition py_min_key :: "('a \<Rightarrow> 'b::linorder) \<Rightarrow> 'a list \<Rightarrow> py_error + 'a" where
  "py_min_key key xs = (case xs of [] \<Rightarrow> Inl ValueError | x # rest \<Rightarrow> Inr (min_from key x rest))"



text \<open>\<open>int(x)\<close> on a float truncates toward zero.\<close>

definition py_int :: "real \<Rightarrow> int" where
  "py_int x = (if 0 \<le> x then \<lfloor>x\<rfloor> else \<lceil>x\<rceil>)"

text \<open>Bounds of a slice \<open>xs[i:j]\<close> over a sequence of length \<open>n\<close>, as Python normalises them.\<close>

definition slice_bound :: "nat \<Rightarrow> int \<Rightarrow> nat" where
  "slice_bound n i =
     (let j = (if i < 0 then i + int n else i)
      in if j < 0 then 0 else if j > int n then n else nat j)"

text \<open>\<open>str.lower\<close> on ASCII text, \<open>str.endswith\<close>, \<open>str.replace\<close> of one character, and
  \<open>os.path.join\<close> for POSIX paths.\<close>

definition lower_char :: "char \<Rightarrow> char" where
  "lower_char c =
     (let n = (of_char c :: nat) in if 65 \<le> n \<and> n \<le> 90 then char_of (n + 32) else c)"

definition str_lower :: "string \<Rightarrow> string" where
  "str_lower s = map lower_char s"

definition endswith :: "string \<Rightarrow> string \<Rightarrow> bool" where
  "endswith s suffix =
     (length suffix \<le> length s \<and> drop (length s - length suffix) s = suffix)"

definition replace_char :: "char \<Rightarrow> char \<Rightarrow> string \<Rightarrow> string" where
  "replace_char a b s = map (\<lambda>c. if c = a then b else c) s"

definition path_join :: "string \<Rightarrow> string \<Rightarrow> string" where
  "path_join a b =
     (if b \<noteq> [] \<and> hd b = CHR ''/'' then b
      else if a = [] \<or> last a = CHR ''/'' then a @ b
      else a @ ''/'' @ b)"

text \<open>Decimal text of a number: \<open>str(n)\<close>, and the zero-padded \<open>f"{z:04d}"\<close>.\<close>

fun str_nat :: "nat \<Rightarrow> string" where
  "str_nat n =
     (if n < 10 then [char_of (48 + n)] else str_nat (n div 10) @ [char_of (48 + n mod 10)])"

definition str_int :: "int \<Rightarrow> string" where
  "str_int i = (if i < 0 then CHR ''-'' # str_nat (nat (- i)) else str_nat (nat i))"

definition fmt_04d :: "nat \<Rightarrow> string" where
  "fmt_04d n = (let s = str_nat n in replicate (4 - length s) CHR ''0'' @ s)"

definition str_bool :: "bool \<Rightarrow> string" where
  "str_bool b = (if b then ''True'' else ''False'')"

section \<open>NumPy arrays\<close>

text \<open>
  An \<open>ndarray\<close> is its shape and its elements in C (row-major) order. A volume has shape
  \<open>[Z, Y, X]\<close>: slice, row, column.
\<close>

record 'a ndarray =
  shape :: "nat list"
  flat :: "'a list"

definition ndim :: "'a ndarray \<Rightarrow> nat" where
  "ndim a = length (shape a)"

text \<open>\<open>a[i:j, :, :]\<close>, a slice of the first axis.\<close>

definition slice_axis0 :: "'a ndarray \<Rightarrow> int \<Rightarrow> int \<Rightarrow> 'a ndarray" where
  "slice_axis0 a i j =
     (let n = hd (shape a);
          plane = prod_list (tl (shape a));
          lo = slice_bound n i;
          hi = slice_bound n j;
          count = hi - lo
      in \<lparr>shape = count # tl (shape a),
          flat = take (count * plane) (drop (lo * plane) (flat a))\<rparr>)"

text \<open>\<open>v[i, :, :]\<close>, \<open>v[:, j, :]\<close> and \<open>v[:, :, k]\<close> on a three-dimensional array, for an index
  already known to be in range.\<close>

definition take_axis0 :: "'a ndarray \<Rightarrow> nat \<Rightarrow> 'a ndarray" where
  "take_axis0 v i =
     (let y = shape v ! 1; x = shape v ! 2
      in \<lparr>shape = [y, x], flat = take (y * x) (drop (i * y * x) (flat v))\<rparr>)"

definition take_axis1 :: "'a ndarray \<Rightarrow> nat \<Rightarrow> 'a ndarray" where
  "take_axis1 v j =
     (let z = shape v ! 0; y = shape v ! 1; x = shape v ! 2
      in \<lparr>shape = [z, x],
          flat = concat (map (\<lambda>k. take x (drop ((k * y + j) * x) (flat v))) [0..<z])\<rparr>)"

definition take_axis2 :: "'a ndarray \<Rightarrow> nat \<Rightarrow> 'a ndarray" where
  "take_axis2 v k =
     (let z = shape v ! 0; y = shape v ! 1; x = shape v ! 2
      in \<lparr>shape = [z, y],
          flat = concat (map (\<lambda>s. map (\<lambda>r. flat v ! ((s * y + r) * x + k)) [0..<y]) [0..<z])\<rparr>)"

text \<open>\<open>np.flipud\<close> on a two-dimensional array: the rows in reverse order.\<close>

definition flipud :: "'a ndarray \<Rightarrow> 'a ndarray" where
  "flipud a =
     (let r = shape a ! 0; c = shape a ! 1
      in \<lparr>shape = shape a,
          flat = concat (rev (map (\<lambda>k. take c (drop (k * c) (flat a))) [0..<r]))\<rparr>)"

section \<open>utils/hu\_utils.py\<close>

text \<open>
  \<open>np.clip\<close> is \<open>minimum(maximum(x, lo), hi)\<close>. \<open>astype(np.uint8)\<close> truncates toward zero and
  keeps the low eight bits.
\<close>

definition clip :: "real \<Rightarrow> real \<Rightarrow> real \<Rightarrow> real" where
  "clip x lo hi = min (max x lo) hi"

definition astype_uint8 :: "real \<Rightarrow> 8 word" where
  "astype_uint8 x = word_of_int (py_int x)"

definition apply_window :: "real ndarray \<Rightarrow> real \<Rightarrow> real \<Rightarrow> py_error + 8 word ndarray" where
  "apply_window img center width =
     (if width \<le> 0 then Inl ValueError
      else
        let lower = center - width / 2;
            upper = center + width / 2
        in Inr \<lparr>shape = shape img,
                flat = map (\<lambda>x. astype_uint8 ((clip x lower upper - lower) / (upper - lower) * 255))
                         (flat img)\<rparr>)"

section \<open>utils/image\_utils.py\<close>


section \<open>services/planning\_mapper.py\<close>


definition find_closest_index :: "real list \<Rightarrow> real \<Rightarrow> py_error + nat" where
  "find_closest_index z_positions_sorted z_mm =
     py_min_key (\<lambda>i. \<bar>z_positions_sorted ! i - z_mm\<bar>) [0..<length z_positions_sorted]"


text \<open>
  The plan is a dictionary with the keys \<open>z_start_mm\<close>, \<open>z_end_mm\<close>, \<open>slice_start\<close>,
  \<open>slice_end\<close> and, once the planning route has stored it, \<open>fov\<close>.
\<close>

type_synonym fov = "(string \<times> int) list"

record planning =
  plan_z_start_mm :: real
  plan_z_end_mm :: real
  plan_slice_start :: int
  plan_slice_end :: int
  plan_fov :: "fov option"


section \<open>services/volume\_cropper.py\<close>

definition crop_volume_z :: "'a ndarray \<Rightarrow> int \<Rightarrow> int \<Rightarrow> py_error + 'a ndarray" where
  "crop_volume_z volume slice_start slice_end =
     (if ndim volume \<noteq> 3 then Inl ValueError
      else
        let z_max = int (shape volume ! 0) - 1;
            slice_start = max 0 slice_start;
            slice_end = min z_max slice_end
        in if slice_start > slice_end then Inl ValueError
           else Inr (slice_axis0 volume slice_start (slice_end + 1)))"

record crop_geometry =
  num_slices :: nat
  geo_height :: nat
  geo_width :: nat
  geo_slice_start :: int
  geo_slice_end :: int
  geo_fov :: fov

text \<open>The field of view is accepted and passed through; it does not crop.\<close>

definition crop_volume ::
  "'a ndarray \<Rightarrow> int \<Rightarrow> int \<Rightarrow> fov option \<Rightarrow> py_error + 'a ndarray \<times> crop_geometry" where
  "crop_volume volume slice_start slice_end fov =
     (case crop_volume_z volume slice_start slice_end of
        Inl e \<Rightarrow> Inl e
      | Inr final_volume \<Rightarrow>
          Inr (final_volume,
               \<lparr>num_slices = shape final_volume ! 0,
                geo_height = shape final_volume ! 1,
                geo_width = shape final_volume ! 2,
                geo_slice_start = slice_start,
                geo_slice_end = slice_end,
                geo_fov = (case fov of None \<Rightarrow> [] | Some f \<Rightarrow> if f = [] then [] else f)\<rparr>))"

section \<open>services/mpr\_generator.py\<close>





section \<open>Files on disk\<close>

text \<open>
  A DICOM dataset as pydicom presents it, with the attributes the backend reads. The
  attributes it reads through \<open>getattr\<close> or \<open>hasattr\<close> are optional; the others are taken
  to be present. A window attribute holds one value. \<open>pixel_array\<close> is the decoded stored
  pixel data.
\<close>

type_synonym vec3 = "real \<times> real \<times> real"

record dataset =
  ImagePositionPatient :: vec3
  Rows :: nat
  Columns :: nat
  PixelSpacing :: "real \<times> real"
  SliceThickness :: "real option"
  ImageOrientationPatient :: "real list"
  RescaleSlope :: "real option"
  RescaleIntercept :: "real option"
  WindowCenter :: "real option"
  WindowWidth :: "real option"
  Modality :: "string option"
  InstanceNumber :: "nat option"
  pixel_array :: "real ndarray"

text \<open>
  A SimpleITK image: its voxels as the array \<open>GetArrayFromImage\<close> returns (shape
  \<open>[Z, Y, X]\<close>), its spacing and origin in \<open>(x, y, z)\<close> order. The direction is never set by
  the backend and stays the identity.
\<close>

record sitk_image =
  img_array :: "real ndarray"
  img_spacing :: vec3
  img_origin :: vec3

datatype disk_file =
    Dicom dataset
  | Nifti sitk_image
  | PlanJson planning
  | Unreadable

text \<open>
  The file system: the directories that exist, and the files by path, in the order a
  directory listing returns them.
\<close>

record filesystem =
  fs_dirs :: "string list"
  fs_files :: "(string \<times> disk_file) list"

definition isdir :: "filesystem \<Rightarrow> string \<Rightarrow> bool" where
  "isdir fs p = (p \<in> set (fs_dirs fs))"

definition isfile :: "filesystem \<Rightarrow> string \<Rightarrow> bool" where
  "isfile fs p = (map_of (fs_files fs) p \<noteq> None)"

definition path_exists :: "filesystem \<Rightarrow> string \<Rightarrow> bool" where
  "path_exists fs p = (isdir fs p \<or> isfile fs p)"

definition child_name :: "string \<Rightarrow> string \<Rightarrow> string option" where
  "child_name d p =
     (let pre = (if d \<noteq> [] \<and> last d = CHR ''/'' then d else d @ ''/'');
          name = drop (length pre) p
      in if take (length pre) p = pre \<and> name \<noteq> [] \<and> CHR ''/'' \<notin> set name
         then Some name else None)"

definition listdir :: "filesystem \<Rightarrow> string \<Rightarrow> py_error + string list" where
  "listdir fs d =
     (if \<not> isdir fs d then (if isfile fs d then Inl OSError else Inl FileNotFoundError)
      else Inr (remdups (List.map_filter (child_name d) (map fst (fs_files fs) @ fs_dirs fs))))"

text \<open>
  \<open>os.makedirs(d, exist_ok=True)\<close> creates the directory and its missing ancestors. Paths
  used as directories are taken not to be regular files.
\<close>

definition ancestors :: "string \<Rightarrow> string list" where
  "ancestors p = [take i p. i \<leftarrow> [1..<length p], p ! i = CHR ''/''] @ [p]"

definition makedirs :: "filesystem \<Rightarrow> string \<Rightarrow> filesystem" where
  "makedirs fs d = fs\<lparr>fs_dirs := fs_dirs fs @ filter (\<lambda>a. \<not> isdir fs a) (ancestors d)\<rparr>"

definition write_file :: "filesystem \<Rightarrow> string \<Rightarrow> disk_file \<Rightarrow> filesystem" where
  "write_file fs p f = fs\<lparr>fs_files := AList.update p f (fs_files fs)\<rparr>"

definition dcmread :: "filesystem \<Rightarrow> string \<Rightarrow> py_error + dataset" where
  "dcmread fs p =
     (case map_of (fs_files fs) p of
        Some (Dicom ds) \<Rightarrow> Inr ds
      | Some _ \<Rightarrow> Inl InvalidDicomError
      | None \<Rightarrow> if isdir fs p then Inl OSError else Inl FileNotFoundError)"

text \<open>\<open>json.load(open(p))\<close> on a plan file; a file that is not JSON raises a \<open>ValueError\<close>.\<close>

definition read_plan :: "filesystem \<Rightarrow> string \<Rightarrow> py_error + planning" where
  "read_plan fs p =
     (case map_of (fs_files fs) p of
        Some (PlanJson plan) \<Rightarrow> Inr plan
      | Some _ \<Rightarrow> Inl ValueError
      | None \<Rightarrow> if isdir fs p then Inl OSError else Inl FileNotFoundError)"

definition is_dcm_name :: "string \<Rightarrow> bool" where
  "is_dcm_name f = endswith (str_lower f) ''.dcm''"

section \<open>services/dicom\_loader.py\<close>

definition get_z_position :: "dataset \<Rightarrow> real" where
  "get_z_position ds = snd (snd (ImagePositionPatient ds))"

text \<open>The files of a directory that decode: a file that fails to decode is skipped.\<close>

definition read_readable :: "filesystem \<Rightarrow> string list \<Rightarrow> dataset list" where
  "read_readable fs dicom_files =
     List.map_filter (\<lambda>p. case dcmread fs p of Inr ds \<Rightarrow> Some ds | Inl e \<Rightarrow> None) dicom_files"

text \<open>
  \<open>volume[i, :, :] = a\<close> broadcasts \<open>a\<close> to \<open>(rows, cols)\<close>: leading axes of length 1 beyond
  two are dropped, missing axes count as 1, and every axis must be 1 or the target's.
\<close>

fun strip_leading_ones :: "nat list \<Rightarrow> nat list" where
  "strip_leading_ones (a # b # c # rest) =
     (if a = 1 then strip_leading_ones (b # c # rest) else a # b # c # rest)"
| "strip_leading_ones sh = sh"

definition broadcast_plane :: "nat \<Rightarrow> nat \<Rightarrow> 'a ndarray \<Rightarrow> py_error + 'a list" where
  "broadcast_plane rows cols a =
     (let sh = strip_leading_ones (shape a)
      in if length sh > 2 then Inl ValueError
         else
           let r = (if length sh = 2 then sh ! 0 else 1);
               c = (if sh = [] then 1 else last sh)
           in if (r = rows \<or> r = 1) \<and> (c = cols \<or> c = 1) then
                Inr (concat (map (\<lambda>i. map (\<lambda>j. flat a ! ((if r = 1 then 0 else i) * c
                                                     + (if c = 1 then 0 else j)))
                                       [0..<cols]) [0..<rows]))
              else Inl ValueError)"

fun stack_planes :: "nat \<Rightarrow> nat \<Rightarrow> real \<Rightarrow> real \<Rightarrow> dataset list \<Rightarrow> py_error + real list" where
  "stack_planes rows cols slope intercept [] = Inr []"
| "stack_planes rows cols slope intercept (ds # rest) =
     (case broadcast_plane rows cols (pixel_array ds) of
        Inl e \<Rightarrow> Inl e
      | Inr plane \<Rightarrow>
          (case stack_planes rows cols slope intercept rest of
             Inl e \<Rightarrow> Inl e
           | Inr others \<Rightarrow> Inr (map (\<lambda>p. p * slope + intercept) plane @ others)))"

record dicom_series =
  ser_volume :: "real ndarray"
  ser_datasets :: "dataset list"
  ser_z_positions :: "real list"
  ser_pixel_spacing :: "real \<times> real"
  ser_slice_thickness :: real
  ser_orientation :: "real list"
  ser_origin :: "real list"
  ser_rows :: nat
  ser_cols :: nat

text \<open>
  The default of \<open>getattr(ref_ds, "SliceThickness", abs(z_positions[1] - z_positions[0]))\<close>
  is an argument of the call: Python evaluates it before \<open>getattr\<close> looks the attribute
  up, whether or not the attribute is present.
\<close>

definition load_dicom_series :: "filesystem \<Rightarrow> string \<Rightarrow> py_error + dicom_series" where
  "load_dicom_series fs case_path =
     (if \<not> isdir fs case_path then Inl FileNotFoundError
      else
        (case listdir fs case_path of
           Inl e \<Rightarrow> Inl e
         | Inr names \<Rightarrow>
             (let dicom_files = map (path_join case_path) (filter is_dcm_name names)
              in if length dicom_files = 0 then Inl RuntimeError
                 else
                   (let datasets = read_readable fs dicom_files
                    in if length datasets = 0 then Inl RuntimeError
                       else
                         (let datasets = sort_key get_z_position datasets;
                              z_positions = map get_z_position datasets
                          in (case py_index datasets 0 of
                                Inl e \<Rightarrow> Inl e
                              | Inr ref_ds \<Rightarrow>
                                  (let rows = Rows ref_ds;
                                       cols = Columns ref_ds;
                                       pixel_spacing = PixelSpacing ref_ds
                                   in (case py_index z_positions 1 of
                                         Inl e \<Rightarrow> Inl e
                                       | Inr z1 \<Rightarrow>
                                           (case py_index z_positions 0 of
                                              Inl e \<Rightarrow> Inl e
                                            | Inr z0 \<Rightarrow>
                                                (let fallback = \<bar>z1 - z0\<bar>;
                                                     slice_thickness =
                                                       (case SliceThickness ref_ds of
                                                          Some t \<Rightarrow> t
                                                        | None \<Rightarrow> fallback);
                                                     orientation = ImageOrientationPatient ref_ds;
                                                     origin =
                                                       (case ImagePositionPatient ref_ds of
                                                          (x, y, z) \<Rightarrow> [x, y, z]);
                                                     rescale_slope =
                                                       (case RescaleSlope ref_ds of
                                                          Some a \<Rightarrow> a
                                                        | None \<Rightarrow> 1);
                                                     rescale_intercept =
                                                       (case RescaleIntercept ref_ds of
                                                          Some b \<Rightarrow> b
                                                        | None \<Rightarrow> 0)
                                                 in (case stack_planes rows cols rescale_slope
                                                            rescale_intercept datasets of
                                                       Inl e \<Rightarrow> Inl e
                                                     | Inr voxels \<Rightarrow>
                                                         Inr \<lparr>ser_volume =
                                                                \<lparr>shape = [length datasets, rows, cols],
                                                                 flat = voxels\<rparr>,
                                                              ser_datasets = datasets,
                                                              ser_z_positions = z_positions,
                                                              ser_pixel_spacing = pixel_spacing,
                                                              ser_slice_thickness = slice_thickness,
                                                              ser_orientation = orientation,
                                                              ser_origin = origin,
                                                              ser_rows = rows,
                                                              ser_cols = cols\<rparr>)))))))))))"

section \<open>services/study\_manager.py\<close>

text \<open>The study cache is a dictionary from case id to the loaded series.\<close>

definition get_study ::
  "filesystem \<Rightarrow> (string \<times> dicom_series) list \<Rightarrow> string \<Rightarrow> string
     \<Rightarrow> (py_error + dicom_series) \<times> (string \<times> dicom_series) list" where
  "get_study fs study_cache case_id case_path =
     (case map_of study_cache case_id of
        Some series \<Rightarrow> (Inr series, study_cache)
      | None \<Rightarrow>
          (case load_dicom_series fs case_path of
             Inl e \<Rightarrow> (Inl e, study_cache)
           | Inr series \<Rightarrow> (Inr series, AList.update case_id series study_cache)))"

definition clear_study :: "(string \<times> dicom_series) list \<Rightarrow> string \<Rightarrow> (string \<times> dicom_series) list" where
  "clear_study study_cache case_id = AList.delete case_id study_cache"

section \<open>config.py\<close>

text \<open>\<open>BASE_DIR\<close> is the directory of the installed backend; it is a parameter.\<close>

record config =
  BASE_DIR :: string

definition DATA_ROOT :: "config \<Rightarrow> string" where
  "DATA_ROOT cfg = path_join (BASE_DIR cfg) ''Datasets''"

definition PLANNING_ROOT :: "config \<Rightarrow> string" where
  "PLANNING_ROOT cfg = path_join (path_join (BASE_DIR cfg) ''storage'') ''plans''"

definition safe_id :: "string \<Rightarrow> string" where
  "safe_id case_id = replace_char CHR ''/'' CHR ''_'' case_id"

definition plan_path_of :: "config \<Rightarrow> string \<Rightarrow> string" where
  "plan_path_of cfg case_id = path_join (PLANNING_ROOT cfg) (safe_id case_id @ ''.json'')"

section \<open>services/dicom\_metadata.py\<close>

text \<open>The geometry, window and rescale entries of the metadata; the identifiers are left out.\<close>

record series_metadata =
  meta_rows :: nat
  meta_cols :: nat
  meta_num_slices :: nat
  meta_pixel_spacing :: "real \<times> real"
  meta_slice_thickness :: real
  meta_z_spacing :: real
  meta_window_center :: real
  meta_window_width :: real
  meta_rescale_slope :: real
  meta_rescale_intercept :: real

definition extract_series_metadata :: "dicom_series \<Rightarrow> py_error + series_metadata" where
  "extract_series_metadata dicom_data =
     (let datasets = ser_datasets dicom_data;
          z_positions = ser_z_positions dicom_data
      in (case py_index datasets 0 of
           Inl e \<Rightarrow> Inl e
         | Inr ref_ds \<Rightarrow>
             (let slice_thickness = ser_slice_thickness dicom_data;
                 window_center = (case WindowCenter ref_ds of None \<Rightarrow> 40 | Some v \<Rightarrow> v);
                 window_width = (case WindowWidth ref_ds of None \<Rightarrow> 400 | Some v \<Rightarrow> v);
                 z_spacing = (if length z_positions > 1
                              then \<bar>z_positions ! 1 - z_positions ! 0\<bar> else slice_thickness)
             in Inr \<lparr>meta_rows = Rows ref_ds,
                     meta_cols = Columns ref_ds,
                     meta_num_slices = length datasets,
                     meta_pixel_spacing = PixelSpacing ref_ds,
                     meta_slice_thickness = slice_thickness,
                     meta_z_spacing = z_spacing,
                     meta_window_center = window_center,
                     meta_window_width = window_width,
                     meta_rescale_slope = (case RescaleSlope ref_ds of None \<Rightarrow> 1 | Some a \<Rightarrow> a),
                     meta_rescale_intercept =
                       (case RescaleIntercept ref_ds of None \<Rightarrow> 0 | Some b \<Rightarrow> b)\<rparr>)))"

section \<open>services/stl\_generator.py\<close>

text \<open>
  VTK is outside the repository. Its filters are parameters: the isosurface extractor, the
  point count of a mesh, decimation to a target reduction with topology preserved, the
  windowed-sinc smoother for a number of iterations, duplicate-point cleanup, normal
  computation, the creation of a temporary file from a suffix, and the STL writer.
\<close>

record ('img, 'mesh) vtk =
  FlyingEdges3D :: "'img \<Rightarrow> real \<Rightarrow> 'mesh"
  GetNumberOfPoints :: "'mesh \<Rightarrow> nat"
  DecimatePro :: "real \<Rightarrow> 'mesh \<Rightarrow> 'mesh"
  WindowedSincPolyDataFilter :: "int \<Rightarrow> 'mesh \<Rightarrow> 'mesh"
  CleanPolyData :: "'mesh \<Rightarrow> 'mesh"
  PolyDataNormals :: "'mesh \<Rightarrow> 'mesh"
  NamedTemporaryFile :: "string \<Rightarrow> py_error + string"
  STLWriter :: "string \<Rightarrow> 'mesh \<Rightarrow> py_error + unit"

text \<open>
  The body of the \<open>try\<close> block, with the set \<open>_temp_files\<close> threaded through. An empty
  isosurface raises \<open>ValueError\<close> here.
\<close>

definition generate_stl_try ::
  "('img, 'mesh) vtk \<Rightarrow> string set \<Rightarrow> 'img \<Rightarrow> int \<Rightarrow> string \<Rightarrow> bool \<Rightarrow> int
     \<Rightarrow> (py_error + string) \<times> string set" where
  "generate_stl_try lib temp_files vtk_image hu name smooth smoothing_iterations =
     (let polydata = FlyingEdges3D lib vtk_image (real_of_int hu)
      in if GetNumberOfPoints lib polydata = 0 then (Inl ValueError, temp_files)
         else
           let polydata = DecimatePro lib (if hu < 0 then 0.75 else 0.50) polydata;
               polydata =
                 (if smooth then
                    WindowedSincPolyDataFilter lib
                      (if smoothing_iterations > 10 then smoothing_iterations else 15) polydata
                  else polydata);
               polydata = PolyDataNormals lib (CleanPolyData lib polydata)
           in case NamedTemporaryFile lib (''_'' @ name @ ''.stl'') of
                Inl e \<Rightarrow> (Inl e, temp_files)
              | Inr tmp \<Rightarrow>
                  (case STLWriter lib tmp polydata of
                     Inl e \<Rightarrow> (Inl e, insert tmp temp_files)
                   | Inr u \<Rightarrow> (Inr tmp, insert tmp temp_files)))"

text \<open>\<open>except Exception as e: raise RuntimeError(...) from e\<close> around the whole body.\<close>

definition generate_stl ::
  "('img, 'mesh) vtk \<Rightarrow> string set \<Rightarrow> 'img \<Rightarrow> int \<Rightarrow> string \<Rightarrow> bool \<Rightarrow> int
     \<Rightarrow> (py_error + string) \<times> string set" where
  "generate_stl lib temp_files vtk_image hu name smooth smoothing_iterations =
     (case generate_stl_try lib temp_files vtk_image hu name smooth smoothing_iterations of
        (Inl e, temp_files') \<Rightarrow> (Inl RuntimeError, temp_files')
      | (Inr path, temp_files') \<Rightarrow> (Inr path, temp_files'))"

section \<open>routes/cine.py\<close>

record cache_entry =
  ce_volume :: "real ndarray"
  ce_wc :: real
  ce_ww :: real

text \<open>
  \<open>_volume_cache\<close> is a Python dictionary. It keeps its keys in insertion order, so it is
  an association list: assignment replaces in place or appends, and \<open>list(d.keys())[0]\<close> is
  the head.
\<close>

type_synonym volume_cache = "(string \<times> cache_entry) list"

text \<open>A string is true in a condition when it is not empty; \<open>None\<close> is false.\<close>

definition truthy :: "string option \<Rightarrow> bool" where
  "truthy s = (case s of None \<Rightarrow> False | Some t \<Rightarrow> t \<noteq> [])"

definition cache_key_of :: "string \<Rightarrow> bool \<Rightarrow> string option \<Rightarrow> string" where
  "cache_key_of case_id use_planning recon_id =
     case_id @ ''_'' @ str_bool use_planning @ ''_''
       @ (if truthy recon_id then the recon_id else ''none'')"

text \<open>\<open>np.stack\<close>: the arrays must have one common shape.\<close>

definition np_stack :: "'a ndarray list \<Rightarrow> py_error + 'a ndarray" where
  "np_stack arrays =
     (case arrays of
        [] \<Rightarrow> Inl ValueError
      | a # rest \<Rightarrow>
          if list_all (\<lambda>b. shape b = shape a) rest
          then Inr \<lparr>shape = length arrays # shape a, flat = concat (map flat arrays)\<rparr>
          else Inl ValueError)"

text \<open>Reading a list of files with \<open>pydicom.dcmread\<close>, where the first failure propagates.\<close>

fun read_all :: "filesystem \<Rightarrow> string list \<Rightarrow> py_error + dataset list" where
  "read_all fs [] = Inr []"
| "read_all fs (p # ps) =
     (case dcmread fs p of
        Inl e \<Rightarrow> Inl e
      | Inr ds \<Rightarrow> (case read_all fs ps of Inl e \<Rightarrow> Inl e | Inr rest \<Rightarrow> Inr (ds # rest)))"

definition recon_pixels :: "dataset \<Rightarrow> real ndarray" where
  "recon_pixels ds =
     (case RescaleSlope ds of
        None \<Rightarrow> pixel_array ds
      | Some slope \<Rightarrow>
          (pixel_array ds)\<lparr>flat := map (\<lambda>p. p * slope
                                         + (case RescaleIntercept ds of None \<Rightarrow> 0 | Some b \<Rightarrow> b))
                                  (flat (pixel_array ds))\<rparr>)"

text \<open>The branch of \<open>get_cached_volume\<close> that loads a stored reconstruction.\<close>

definition load_recon_volume :: "config \<Rightarrow> filesystem \<Rightarrow> string \<Rightarrow> string \<Rightarrow> py_error + cache_entry" where
  "load_recon_volume cfg fs case_id recon_id =
     (let safe_case_id = safe_id case_id;
          recon_dir = path_join (path_join (path_join (PLANNING_ROOT cfg) safe_case_id) ''recon'')
                        recon_id
      in if \<not> path_exists fs recon_dir then Inl (HTTPException 404)
         else
           (case listdir fs recon_dir of
              Inl e \<Rightarrow> Inl e
            | Inr names \<Rightarrow>
                (let dicom_files = map (path_join recon_dir) (filter is_dcm_name names)
                 in if dicom_files = [] then Inl (HTTPException 404)
                    else
                      (let dicom_files = sort dicom_files
                       in (case read_all fs dicom_files of
                             Inl e \<Rightarrow> Inl e
                           | Inr dss \<Rightarrow>
                               (case np_stack (map recon_pixels dss) of
                                  Inl e \<Rightarrow> Inl e
                                | Inr volume \<Rightarrow>
                                    (case dcmread fs (hd dicom_files) of
                                       Inl e \<Rightarrow> Inl e
                                     | Inr ds \<Rightarrow>
                                         (if WindowCenter ds \<noteq> None \<and> WindowWidth ds \<noteq> None
                                          then Inr \<lparr>ce_volume = volume,
                                                    ce_wc = the (WindowCenter ds),
                                                    ce_ww = the (WindowWidth ds)\<rparr>
                                          else Inr \<lparr>ce_volume = volume, ce_wc = 40,
                                                    ce_ww = 400\<rparr>))))))))"

text \<open>
  The branch that loads the raw series through the study cache and crops it to the stored
  plan. \<open>planning["fov"]\<close> raises \<open>KeyError\<close> when the plan has no field of view.
\<close>

type_synonym study_cache = "(string \<times> dicom_series) list"

definition load_raw_volume ::
  "config \<Rightarrow> filesystem \<Rightarrow> study_cache \<Rightarrow> string \<Rightarrow> bool
     \<Rightarrow> (py_error + cache_entry) \<times> study_cache" where
  "load_raw_volume cfg fs studies case_id use_planning =
     (let case_path = path_join (DATA_ROOT cfg) case_id;
          plan_path = plan_path_of cfg case_id
      in (case get_study fs studies case_id case_path of
            (Inl e, studies') \<Rightarrow> (Inl e, studies')
          | (Inr dicom_data, studies') \<Rightarrow>
              (case extract_series_metadata dicom_data of
                 Inl e \<Rightarrow> (Inl e, studies')
               | Inr meta \<Rightarrow>
                   (let cropped =
                          (if use_planning \<and> path_exists fs plan_path then
                             (case read_plan fs plan_path of
                                Inl e \<Rightarrow> Inl e
                              | Inr planning \<Rightarrow>
                                  (case plan_fov planning of
                                     None \<Rightarrow> Inl KeyError
                                   | Some fov \<Rightarrow>
                                       (case crop_volume (ser_volume dicom_data)
                                               (plan_slice_start planning)
                                               (plan_slice_end planning) (Some fov) of
                                          Inl e \<Rightarrow> Inl e
                                        | Inr (cropped_volume, geo) \<Rightarrow> Inr cropped_volume)))
                           else Inr (ser_volume dicom_data))
                    in (case cropped of
                          Inl e \<Rightarrow> (Inl e, studies')
                        | Inr volume \<Rightarrow>
                            (Inr \<lparr>ce_volume = volume, ce_wc = meta_window_center meta,
                                  ce_ww = meta_window_width meta\<rparr>, studies'))))))"

definition load_volume ::
  "config \<Rightarrow> filesystem \<Rightarrow> study_cache \<Rightarrow> string \<Rightarrow> bool \<Rightarrow> string option
     \<Rightarrow> (py_error + cache_entry) \<times> study_cache" where
  "load_volume cfg fs studies case_id use_planning recon_id =
     (if truthy recon_id then (load_recon_volume cfg fs case_id (the recon_id), studies)
      else load_raw_volume cfg fs studies case_id use_planning)"

text \<open>
  \<open>get_cached_volume\<close>: a hit returns the stored entry; a miss loads, stores under the key,
  deletes the first key when more than three are held, and reads the entry back.
\<close>

definition get_cached_volume ::
  "config \<Rightarrow> filesystem \<Rightarrow> study_cache \<Rightarrow> volume_cache \<Rightarrow> string \<Rightarrow> bool \<Rightarrow> string option
     \<Rightarrow> (py_error + cache_entry) \<times> study_cache \<times> volume_cache" where
  "get_cached_volume cfg fs studies cache case_id use_planning recon_id =
     (let cache_key = cache_key_of case_id use_planning recon_id
      in (case map_of cache cache_key of
            Some entry \<Rightarrow> (Inr entry, studies, cache)
          | None \<Rightarrow>
              (case load_volume cfg fs studies case_id use_planning recon_id of
                 (Inl e, studies') \<Rightarrow> (Inl e, studies', cache)
               | (Inr entry, studies') \<Rightarrow>
                   (let cache1 = AList.update cache_key entry cache;
                        cache2 = (if length cache1 > 3
                                  then AList.delete (fst (hd cache1)) cache1 else cache1)
                    in ((case map_of cache2 cache_key of
                           None \<Rightarrow> Inl KeyError
                         | Some stored \<Rightarrow> Inr stored),
                        studies', cache2)))))"

section \<open>routes/reconstruction.py\<close>

text \<open>
  SimpleITK is outside the repository. A filter returns an image on the grid of its input,
  so the model keeps the geometry and takes the filtered voxel values from parameters;
  \<open>Resample\<close> returns an image of the size, spacing and origin it is given, with voxel
  values from its interpolation parameter. Image arithmetic is voxel-wise.
\<close>

record sitk_ops =
  CurvatureFlow :: "sitk_image \<Rightarrow> real \<Rightarrow> nat \<Rightarrow> real list"
  Laplacian :: "sitk_image \<Rightarrow> real list"
  ResampleLinear :: "sitk_image \<Rightarrow> nat \<times> nat \<times> nat \<Rightarrow> vec3 \<Rightarrow> real list"

definition GetSize :: "sitk_image \<Rightarrow> nat \<times> nat \<times> nat" where
  "GetSize img = (shape (img_array img) ! 2, shape (img_array img) ! 1, shape (img_array img) ! 0)"

definition GetDepth :: "sitk_image \<Rightarrow> nat" where
  "GetDepth img = shape (img_array img) ! 0"

definition with_voxels :: "sitk_image \<Rightarrow> real list \<Rightarrow> sitk_image" where
  "with_voxels img vs = img\<lparr>img_array := (img_array img)\<lparr>flat := vs\<rparr>\<rparr>"

text \<open>\<open>a - k * b\<close> on two images of one grid.\<close>

definition minus_scaled :: "sitk_image \<Rightarrow> real \<Rightarrow> real list \<Rightarrow> sitk_image" where
  "minus_scaled a k b = with_voxels a (map2 (\<lambda>x y. x - k * y) (flat (img_array a)) b)"

text \<open>
  A JSON number is an integer or a float. The text of an integer is its decimal form; the
  text Python gives a float is a parameter.
\<close>

datatype py_num = PyInt int | PyFloat real

definition num_val :: "py_num \<Rightarrow> real" where
  "num_val n = (case n of PyInt i \<Rightarrow> real_of_int i | PyFloat r \<Rightarrow> r)"

definition str_num :: "(real \<Rightarrow> string) \<Rightarrow> py_num \<Rightarrow> string" where
  "str_num float_str n = (case n of PyInt i \<Rightarrow> str_int i | PyFloat r \<Rightarrow> float_str r)"

definition rescaled_pixels :: "dataset \<Rightarrow> real ndarray" where
  "rescaled_pixels ds =
     (pixel_array ds)\<lparr>flat :=
        map (\<lambda>p. p * (case RescaleSlope ds of None \<Rightarrow> 1 | Some a \<Rightarrow> a)
                   + (case RescaleIntercept ds of None \<Rightarrow> 0 | Some b \<Rightarrow> b))
            (flat (pixel_array ds))\<rparr>"

definition load_base_volume :: "config \<Rightarrow> filesystem \<Rightarrow> string \<Rightarrow> py_error + sitk_image" where
  "load_base_volume cfg fs case_id =
     (let case_path = path_join (DATA_ROOT cfg) case_id
      in (case listdir fs case_path of
            Inl e \<Rightarrow> Inl e
          | Inr names \<Rightarrow>
              (let dicom_files = map (path_join case_path) (filter is_dcm_name names)
               in if dicom_files = [] then Inl RuntimeError
                  else
                    (case read_all fs dicom_files of
                       Inl e \<Rightarrow> Inl e
                     | Inr datasets \<Rightarrow>
                         (let datasets = sort_key get_z_position datasets
                          in (case py_index datasets 0 of
                                Inl e \<Rightarrow> Inl e
                              | Inr ds0 \<Rightarrow>
                                  (case py_index datasets 1 of
                                     Inl e \<Rightarrow> Inl e
                                   | Inr ds1 \<Rightarrow>
                                       (let pixel_spacing = PixelSpacing ds0;
                                            slice_thickness =
                                              \<bar>get_z_position ds1 - get_z_position ds0\<bar>;
                                            origin = ImagePositionPatient ds0
                                        in (case np_stack (map rescaled_pixels datasets) of
                                              Inl e \<Rightarrow> Inl e
                                            | Inr volume \<Rightarrow>
                                                (if ndim volume \<noteq> 3 then Inl SitkError
                                                 else Inr \<lparr>img_array = volume,
                                                           img_spacing =
                                                             (snd pixel_spacing, fst pixel_spacing,
                                                              slice_thickness),
                                                           img_origin = origin\<rparr>))))))))))"

definition apply_kernel :: "sitk_ops \<Rightarrow> sitk_image \<Rightarrow> string \<Rightarrow> sitk_image" where
  "apply_kernel ops img kernel_name =
     (let kernel_name = str_lower kernel_name
      in if kernel_name = ''soft'' then with_voxels img (CurvatureFlow ops img 0.125 5)
         else if kernel_name = ''abdomen'' then
           (let smooth = with_voxels img (CurvatureFlow ops img 0.125 3)
            in minus_scaled smooth 0.25 (Laplacian ops smooth))
         else if kernel_name = ''bone'' then minus_scaled img 0.7 (Laplacian ops img)
         else if kernel_name = ''lung'' then minus_scaled img 0.4 (Laplacian ops img)
         else img)"

text \<open>
  \<open>new_size[i] = int(size[i] * spacing[i] / new_spacing[i])\<close> for the axes x, y, z in turn.
  A zero divisor raises \<open>ZeroDivisionError\<close>; a negative size is refused by the binding.
  In exact arithmetic \<open>size * spacing / spacing\<close> is the size, so the in-plane sizes stay;
  what rounding does to them is not part of the model.
\<close>

definition resample_slice_thickness :: "sitk_ops \<Rightarrow> sitk_image \<Rightarrow> real \<Rightarrow> py_error + sitk_image" where
  "resample_slice_thickness ops img new_thickness =
     (case (img_spacing img, GetSize img) of
        ((sx, sy, sz), (nx, ny, nz)) \<Rightarrow>
          (if sx = 0 \<or> sy = 0 \<or> new_thickness = 0 then Inl ZeroDivisionError
           else
             (let new_spacing = (sx, sy, new_thickness);
                  mx = py_int (real nx * sx / sx);
                  my = py_int (real ny * sy / sy);
                  mz = py_int (real nz * sz / new_thickness)
              in if mx < 0 \<or> my < 0 \<or> mz < 0 then Inl SitkError
                 else
                   (let new_size = (nat mx, nat my, nat mz)
                    in Inr \<lparr>img_array = \<lparr>shape = [nat mz, nat my, nat mx],
                                          flat = ResampleLinear ops img new_size new_spacing\<rparr>,
                            img_spacing = new_spacing,
                            img_origin = img_origin img\<rparr>))))"

definition enhance_z_resolution :: "sitk_ops \<Rightarrow> sitk_image \<Rightarrow> sitk_image" where
  "enhance_z_resolution ops img = minus_scaled img 0.15 (Laplacian ops img)"

text \<open>
  The files \<open>save_as_dicom_series\<close> writes, one per slice \<open>z\<close> of the image: the slice cast to
  16-bit integers, with modality, instance number, spacing, thickness, axial orientation and
  the position \<open>origin_z + z * spacing_z\<close>. A write to the disk of the model always
  succeeds.
\<close>

definition slice_dataset :: "sitk_image \<Rightarrow> nat \<Rightarrow> dataset" where
  "slice_dataset img z =
     (case (img_spacing img, img_origin img) of
        ((sx, sy, sz), (ox, oy, oz)) \<Rightarrow>
          \<lparr>ImagePositionPatient = (ox, oy, oz + real z * sz),
           Rows = shape (img_array img) ! 1,
           Columns = shape (img_array img) ! 2,
           PixelSpacing = (sx, sy),
           SliceThickness = Some sz,
           ImageOrientationPatient = [1, 0, 0, 0, 1, 0],
           RescaleSlope = None,
           RescaleIntercept = None,
           WindowCenter = None,
           WindowWidth = None,
           Modality = Some ''CT'',
           InstanceNumber = Some (z + 1),
           pixel_array =
             (let plane = take_axis0 (img_array img) z
              in plane\<lparr>flat := map (\<lambda>v. real_of_int (py_int v)) (flat plane)\<rparr>)\<rparr>)"

definition slice_path :: "string \<Rightarrow> nat \<Rightarrow> string" where
  "slice_path out_dir z = path_join out_dir (''IM_'' @ fmt_04d z @ ''.dcm'')"

definition series_files :: "sitk_image \<Rightarrow> string \<Rightarrow> (string \<times> disk_file) list" where
  "series_files img out_dir =
     map (\<lambda>z. (slice_path out_dir z, Dicom (slice_dataset img z))) [0..<GetDepth img]"

definition save_as_dicom_series :: "filesystem \<Rightarrow> sitk_image \<Rightarrow> string \<Rightarrow> filesystem" where
  "save_as_dicom_series fs img out_dir =
     fold (\<lambda>(p, f) fs'. write_file fs' p f) (series_files img out_dir) (makedirs fs out_dir)"

text \<open>The request body and the descriptor the route returns.\<close>

record payload =
  pl_case_id :: "string option"
  pl_slice_thickness_mm :: "py_num option"
  pl_kernel :: "string option"
  pl_use_planning :: "bool option"
  pl_planning :: "planning option"

record descriptor =
  d_type :: string
  d_case_id :: string
  d_recon_id :: string
  d_volume_url :: string
  d_dicom_series_url :: string
  d_kernel :: string
  d_slice_thickness_mm :: py_num
  d_planning_ref :: "planning option"
  d_used_planning :: bool

definition recon_id_of :: "(real \<Rightarrow> string) \<Rightarrow> py_num \<Rightarrow> string \<Rightarrow> string" where
  "recon_id_of float_str thickness kernel_name =
     ''ST_'' @ str_num float_str thickness @ ''_K_'' @ kernel_name"

definition recon_dir_of :: "config \<Rightarrow> string \<Rightarrow> string" where
  "recon_dir_of cfg case_id = path_join (path_join (PLANNING_ROOT cfg) (safe_id case_id)) ''recon''"

definition output_path_of :: "config \<Rightarrow> (real \<Rightarrow> string) \<Rightarrow> string \<Rightarrow> py_num \<Rightarrow> string \<Rightarrow> string" where
  "output_path_of cfg float_str case_id thickness kernel_name =
     path_join (recon_dir_of cfg case_id) (recon_id_of float_str thickness kernel_name @ ''.nii'')"

definition describe ::
  "config \<Rightarrow> (real \<Rightarrow> string) \<Rightarrow> string \<Rightarrow> py_num \<Rightarrow> string \<Rightarrow> bool \<Rightarrow> planning option
     \<Rightarrow> descriptor" where
  "describe cfg float_str case_id thickness kernel_name use_planning planning_data =
     \<lparr>d_type = ''reconstruction'',
      d_case_id = case_id,
      d_recon_id = recon_id_of float_str thickness kernel_name,
      d_volume_url = output_path_of cfg float_str case_id thickness kernel_name,
      d_dicom_series_url = ''/storage/plans/'' @ safe_id case_id @ ''/recon/''
                             @ recon_id_of float_str thickness kernel_name @ ''/'',
      d_kernel = kernel_name,
      d_slice_thickness_mm = thickness,
      d_planning_ref = planning_data,
      d_used_planning = (use_planning \<and> planning_data \<noteq> None)\<rparr>"

text \<open>The planning step of the pipeline: crop to the plan and move the origin.\<close>

definition apply_planning ::
  "config \<Rightarrow> filesystem \<Rightarrow> string \<Rightarrow> sitk_image \<Rightarrow> planning \<Rightarrow> py_error + sitk_image" where
  "apply_planning cfg fs case_id img planning_data =
     (case crop_volume (img_array img) (plan_slice_start planning_data)
             (plan_slice_end planning_data) (plan_fov planning_data) of
        Inl e \<Rightarrow> Inl e
      | Inr (cropped_np, geo) \<Rightarrow>
          (let case_path = path_join (DATA_ROOT cfg) case_id
           in (case listdir fs case_path of
                 Inl e \<Rightarrow> Inl e
               | Inr names \<Rightarrow>
                   (case read_all fs (map (path_join case_path) (filter is_dcm_name names)) of
                      Inl e \<Rightarrow> Inl e
                    | Inr datasets \<Rightarrow>
                        (let z_positions = map get_z_position (sort_key get_z_position datasets);
                             new_origin_z =
                               (if z_positions \<noteq> []
                                   \<and> plan_slice_start planning_data < int (length z_positions)
                                then py_index z_positions (plan_slice_start planning_data)
                                else Inr (snd (snd (img_origin img))
                                          + real_of_int (plan_slice_start planning_data)
                                            * snd (snd (img_spacing img))))
                         in (case new_origin_z of
                               Inl e \<Rightarrow> Inl e
                             | Inr oz \<Rightarrow>
                                 Inr \<lparr>img_array = cropped_np,
                                      img_spacing = img_spacing img,
                                      img_origin = (fst (img_origin img),
                                                    fst (snd (img_origin img)), oz)\<rparr>))))))"

text \<open>The pipeline after the existence check: load, plan, filter, resample, enhance, write.\<close>

definition reconstruct ::
  "config \<Rightarrow> sitk_ops \<Rightarrow> filesystem \<Rightarrow> string \<Rightarrow> py_num \<Rightarrow> string \<Rightarrow> bool \<Rightarrow> planning option
     \<Rightarrow> string \<Rightarrow> string \<Rightarrow> (py_error + unit) \<times> filesystem" where
  "reconstruct cfg ops fs case_id thickness kernel_name use_planning planning_data output_path
       dicom_out_dir =
     (case load_base_volume cfg fs case_id of
        Inl e \<Rightarrow> (Inl e, fs)
      | Inr img0 \<Rightarrow>
          (case (if use_planning \<and> planning_data \<noteq> None
                 then apply_planning cfg fs case_id img0 (the planning_data) else Inr img0) of
             Inl e \<Rightarrow> (Inl e, fs)
           | Inr img1 \<Rightarrow>
               (case resample_slice_thickness ops (apply_kernel ops img1 kernel_name)
                       (num_val thickness) of
                  Inl e \<Rightarrow> (Inl e, fs)
                | Inr img2 \<Rightarrow>
                    (let img3 = enhance_z_resolution ops img2;
                         fs1 = write_file fs output_path (Nifti img3);
                         fs2 = save_as_dicom_series fs1 img3 dicom_out_dir
                     in (case listdir fs2 dicom_out_dir of
                           Inl e \<Rightarrow> (Inl e, fs2)
                         | Inr names \<Rightarrow>
                             (if filter is_dcm_name names = [] then (Inl RuntimeError, fs2)
                              else (Inr (), fs2)))))))"

text \<open>
  The plan in effect: the one in the request, else the stored one when planning is asked
  for and a plan file exists.
\<close>

definition resolve_planning ::
  "config \<Rightarrow> filesystem \<Rightarrow> string \<Rightarrow> bool \<Rightarrow> planning option \<Rightarrow> py_error + planning option" where
  "resolve_planning cfg fs case_id use_planning given =
     (let plan_path = plan_path_of cfg case_id
      in if use_planning \<and> given = None \<and> path_exists fs plan_path
         then (case read_plan fs plan_path of Inl e \<Rightarrow> Inl e | Inr plan \<Rightarrow> Inr (Some plan))
         else Inr given)"

definition kernel_of :: "payload \<Rightarrow> string" where
  "kernel_of request = (case pl_kernel request of None \<Rightarrow> ''soft'' | Some k \<Rightarrow> k)"

definition use_planning_of :: "payload \<Rightarrow> bool" where
  "use_planning_of request = (case pl_use_planning request of None \<Rightarrow> True | Some b \<Rightarrow> b)"

definition apply_reconstruction ::
  "config \<Rightarrow> sitk_ops \<Rightarrow> (real \<Rightarrow> string) \<Rightarrow> filesystem \<Rightarrow> payload
     \<Rightarrow> (py_error + descriptor) \<times> filesystem" where
  "apply_reconstruction cfg ops float_str fs request =
     (case pl_case_id request of
        None \<Rightarrow> (Inl KeyError, fs)
      | Some case_id \<Rightarrow>
          (case pl_slice_thickness_mm request of
             None \<Rightarrow> (Inl KeyError, fs)
           | Some thickness \<Rightarrow>
               (let kernel_name = kernel_of request;
                    use_planning = use_planning_of request;
                    loaded = resolve_planning cfg fs case_id use_planning (pl_planning request)
                in (case loaded of
                      Inl e \<Rightarrow> (Inl e, fs)
                    | Inr planning_data \<Rightarrow>
                        (let recon_id = recon_id_of float_str thickness kernel_name;
                             recon_dir = recon_dir_of cfg case_id;
                             fs1 = makedirs fs recon_dir;
                             output_path = output_path_of cfg float_str case_id thickness kernel_name
                         in if path_exists fs1 output_path then
                              (Inr (describe cfg float_str case_id thickness kernel_name
                                      use_planning planning_data), fs1)
                            else
                              (case reconstruct cfg ops fs1 case_id thickness kernel_name
                                      use_planning planning_data output_path
                                      (path_join recon_dir recon_id) of
                                 (Inl e, fs2) \<Rightarrow> (Inl e, fs2)
                               | (Inr u, fs2) \<Rightarrow>
                                   (Inr (describe cfg float_str case_id thickness kernel_name
                                           use_planning planning_data), fs2)))))))"

section \<open>Derived notions and scenario inputs\<close>






definition vol412 :: "real ndarray" where
  "vol412 = \<lparr>shape = [4, 1, 2], flat = [0, 1, 2, 3, 4, 5, 6, 7]\<rparr>"


text \<open>
  DICOM slices of one row and two columns at height \<open>z\<close>, with or without a nominal
  thickness, stored with slope 1 and intercept -1024.
\<close>

definition slice_ds :: "real \<Rightarrow> real option \<Rightarrow> real list \<Rightarrow> dataset" where
  "slice_ds z thickness px =
     \<lparr>ImagePositionPatient = (0, 0, z), Rows = 1, Columns = 2, PixelSpacing = (1, 1),
      SliceThickness = thickness, ImageOrientationPatient = [1, 0, 0, 0, 1, 0],
      RescaleSlope = Some 1, RescaleIntercept = Some (-1024),
      WindowCenter = None, WindowWidth = None,
      Modality = Some ''CT'', InstanceNumber = None,
      pixel_array = \<lparr>shape = [1, 2], flat = px\<rparr>\<rparr>"

definition demo_cfg :: config where
  "demo_cfg = \<lparr>BASE_DIR = ''app''\<rparr>"


text \<open>A case directory with two decodable slices, listed out of order, and one broken file.\<close>

definition two_slice_fs :: filesystem where
  "two_slice_fs =
     \<lparr>fs_dirs = [''app'', ''app/Datasets'', ''app/Datasets/c1''],
      fs_files = [(''app/Datasets/c1/b.dcm'', Dicom (slice_ds 3 None [1124, 1024])),
                  (''app/Datasets/c1/a.DCM'', Dicom (slice_ds 1 None [24, 1024])),
                  (''app/Datasets/c1/bad.dcm'', Unreadable)]\<rparr>"

definition raw_entry :: cache_entry where
  "raw_entry =
     \<lparr>ce_volume = \<lparr>shape = [2, 1, 2], flat = [-1000, 0, 100, 0]\<rparr>, ce_wc = 40, ce_ww = 400\<rparr>"

text \<open>
  A stand-in for VTK on arrays, its meshes being lists of points: the extractor yields a
  point for every voxel at or above the iso-value, so a volume that never reaches it gives
  the empty mesh. An all-air volume of eight voxels.
\<close>

definition toy_vtk :: "(real ndarray, real list) vtk" where
  "toy_vtk =
     \<lparr>FlyingEdges3D = (\<lambda>img v. filter (\<lambda>x. v \<le> x) (flat img)),
      GetNumberOfPoints = length,
      DecimatePro = (\<lambda>r m. m),
      WindowedSincPolyDataFilter = (\<lambda>n m. m),
      CleanPolyData = remdups,
      PolyDataNormals = (\<lambda>m. m),
      NamedTemporaryFile = (\<lambda>suffix. Inr (''/tmp/tmp0'' @ suffix)),
      STLWriter = (\<lambda>p m. Inr ())\<rparr>"

definition air_volume :: "real ndarray" where
  "air_volume = \<lparr>shape = [2, 2, 2], flat = replicate 8 (-1000)\<rparr>"

text \<open>
  A stand-in for SimpleITK whose filters return zeros, a base image of forty slices of one
  voxel at 1 mm, and requests for a 5 mm bone reconstruction of case \<open>c1\<close>.
\<close>

definition toy_sitk :: sitk_ops where
  "toy_sitk =
     \<lparr>CurvatureFlow = (\<lambda>img t n. map (\<lambda>v. 0) (flat (img_array img))),
      Laplacian = (\<lambda>img. map (\<lambda>v. 0) (flat (img_array img))),
      ResampleLinear = (\<lambda>img (nx, ny, nz) sp. replicate (nx * ny * nz) 0)\<rparr>"

definition forty_slices :: sitk_image where
  "forty_slices =
     \<lparr>img_array = \<lparr>shape = [40, 1, 1], flat = replicate 40 0\<rparr>,
      img_spacing = (0.5, 0.5, 1), img_origin = (0, 0, 0)\<rparr>"

definition bone_request :: payload where
  "bone_request =
     \<lparr>pl_case_id = Some ''c1'', pl_slice_thickness_mm = Some (PyInt 5),
      pl_kernel = Some ''bone'', pl_use_planning = None, pl_planning = None\<rparr>"

definition plan_a :: planning where
  "plan_a = \<lparr>plan_z_start_mm = 1, plan_z_end_mm = 3, plan_slice_start = 0, plan_slice_end = 1,
             plan_fov = Some []\<rparr>"

definition plan_b :: planning where
  "plan_b = \<lparr>plan_z_start_mm = 3, plan_z_end_mm = 3, plan_slice_start = 1, plan_slice_end = 1,
             plan_fov = Some []\<rparr>"

text \<open>
  The disk after a 5 mm bone reconstruction of \<open>c1\<close> was stored, with a plan on file and
  without the case directory of \<open>c1\<close>.
\<close>

definition recon_fs :: "planning \<Rightarrow> filesystem" where
  "recon_fs plan =
     \<lparr>fs_dirs = [''app'', ''app/storage'', ''app/storage/plans'', ''app/storage/plans/c1'',
                 ''app/storage/plans/c1/recon''],
      fs_files = [(''app/storage/plans/c1/recon/ST_5_K_bone.nii'', Nifti forty_slices),
                  (''app/storage/plans/c1.json'', PlanJson plan)]\<rparr>"

definition no_float_str :: "real \<Rightarrow> string" where
  "no_float_str r = ''?''"

section \<open>Properties\<close>

subsection \<open>Arrays\<close>

lemma shape3: "ndim v = 3 \<Longrightarrow> shape v = [shape v ! 0, shape v ! 1, shape v ! 2]"
  unfolding ndim_def
  by (cases "shape v"; simp; cases "tl (shape v)"; simp; cases "tl (tl (shape v))"; simp)

lemma slice_bound_in: "0 \<le> i \<Longrightarrow> i \<le> int n \<Longrightarrow> slice_bound n i = nat i"
  by (simp add: slice_bound_def Let_def)

lemma take_axis0_slice:
  assumes "k < c"
  shows "take (p::nat) (drop (k * p) (take (c * p) (drop (lo * p) xs)))
         = take p (drop ((lo + k) * p) xs)"
proof -
  have "(k + 1) * p \<le> c * p" using assms by (intro mult_le_mono1) simp
  then have le: "p \<le> c * p - k * p" by simp
  have "take p (drop (k * p) (take (c * p) (drop (lo * p) xs)))
        = take p (take (c * p - k * p) (drop (k * p) (drop (lo * p) xs)))"
    by (simp only: drop_take)
  also have "\<dots> = take p (drop (k * p) (drop (lo * p) xs))"
    using le by (simp add: min_absorb1)
  also have "\<dots> = take p (drop ((lo + k) * p) xs)"
    by (simp add: add_mult_distrib add.commute)
  finally show ?thesis .
qed

lemma ndim_take_axis [simp]:
  "ndim (take_axis0 v i) = 2" "ndim (take_axis1 v i) = 2" "ndim (take_axis2 v i) = 2"
  by (simp_all add: ndim_def take_axis0_def take_axis1_def take_axis2_def Let_def)

lemma ndim_flipud [simp]: "ndim (flipud a) = ndim a"
  by (simp add: ndim_def flipud_def Let_def)

subsection \<open>Windowing\<close>









lemma apply_window_nonpositive: "w \<le> 0 \<Longrightarrow> apply_window img c w = Inl ValueError"
  by (simp add: apply_window_def)



subsection \<open>Planning\<close>

lemma min_from_first:
  "\<exists>ys zs. b # xs = ys @ min_from key b xs # zs
      \<and> (\<forall>y \<in> set ys. key (min_from key b xs) < key y)
      \<and> (\<forall>z \<in> set zs. key (min_from key b xs) \<le> key z)"
proof (induction xs arbitrary: b rule: rev_induct)
  case Nil
  show ?case by (rule exI[of _ "[]"], rule exI[of _ "[]"]) simp
next
  case (snoc x xs)
  have step: "min_from key b (xs @ [x])
              = (if key x < key (min_from key b xs) then x else min_from key b xs)"
    for b by (induction xs arbitrary: b) simp_all
  from snoc[of b] obtain ys zs where
    d: "b # xs = ys @ min_from key b xs # zs"
    and lt: "\<forall>y \<in> set ys. key (min_from key b xs) < key y"
    and le: "\<forall>z \<in> set zs. key (min_from key b xs) \<le> key z" by blast
  show ?case
  proof (cases "key x < key (min_from key b xs)")
    case True
    have "b # xs @ [x] = (b # xs) @ x # []" by simp
    moreover have "\<forall>y \<in> set (b # xs). key x < key y"
      using True lt le by (subst d) fastforce
    ultimately show ?thesis using True unfolding step
      by (intro exI[of _ "b # xs"] exI[of _ "[]"]) simp
  next
    case False
    have "b # xs @ [x] = ys @ min_from key b xs # (zs @ [x])" using d by simp
    then show ?thesis using False lt le unfolding step
      by (intro exI[of _ ys] exI[of _ "zs @ [x]"]) auto
  qed
qed

text \<open>
  The index search returns a nearest slice, and among equally near slices the one with the
  lowest index.
\<close>

lemma find_closest_index_nearest:
  assumes "zs \<noteq> []"
  shows "\<exists>i. find_closest_index zs z = Inr i \<and> i < length zs
           \<and> (\<forall>j < length zs. \<bar>zs ! i - z\<bar> \<le> \<bar>zs ! j - z\<bar>)
           \<and> (\<forall>j < i. \<bar>zs ! i - z\<bar> < \<bar>zs ! j - z\<bar>)"
proof -
  define n where "n = length zs"
  define key where "key = (\<lambda>i. \<bar>zs ! i - z\<bar>)"
  have n: "0 < n" using assms by (simp add: n_def)
  then have upt: "[0..<n] = 0 # [1..<n]" by (simp add: upt_rec)
  define r where "r = min_from key 0 [1..<n]"
  have res: "find_closest_index zs z = Inr r"
    unfolding find_closest_index_def py_min_key_def n_def[symmetric] upt r_def key_def by simp
  from min_from_first[of 0 "[1..<n]" key] obtain ys ws where
    d: "[0..<n] = ys @ r # ws"
    and lt: "\<forall>y \<in> set ys. key r < key y"
    and le: "\<forall>w \<in> set ws. key r \<le> key w"
    unfolding r_def upt by blast
  have rin: "r < n" using d by (metis atLeastLessThan_iff in_set_conv_decomp set_upt)
  have len: "length ys = r"
  proof -
    have "[0..<n] ! length ys = r" by (simp add: d)
    moreover have "length ys < n"
      using d by (metis add_Suc_right length_Cons length_append length_upt less_add_Suc1
          minus_nat.diff_0)
    ultimately show ?thesis by simp
  qed
  have ys: "ys = [0..<r]"
  proof -
    have "ys = take r [0..<n]" using d len by simp
    then show ?thesis using rin by (simp add: take_upt)
  qed
  have ws: "set ws = {r<..<n}"
  proof -
    have "ws = drop (Suc r) [0..<n]" using d len by simp
    then show ?thesis by (auto simp: drop_upt)
  qed
  have all: "key r \<le> key j" if "j < n" for j
  proof -
    consider "j < r" | "j = r" | "r < j" by linarith
    then show ?thesis
    proof cases
      case 1
      then have "key r < key j" using lt ys by simp
      then show ?thesis by simp
    next
      case 2 then show ?thesis by simp
    next
      case 3 then show ?thesis using le ws that by simp
    qed
  qed
  have first: "key r < key j" if "j < r" for j using lt ys that by simp
  show ?thesis using res rin all first unfolding key_def n_def by blast
qed















subsection \<open>Cropping\<close>

text \<open>
  Claim C5. On a three-dimensional volume with \<open>z\<close> slices, \<open>crop_volume_z\<close> works with
  \<open>s = max 0 slice_start\<close> and \<open>e = min (z - 1) slice_end\<close>. It fails exactly when \<open>s > e\<close>, and
  then with \<open>ValueError\<close>. Otherwise the result has \<open>e - s + 1\<close> slices with the rows and
  columns of the input, and its \<open>k\<close>-th slice is slice \<open>s + k\<close> of the input. For
  \<open>0 \<le> slice_start \<le> slice_end < z\<close> the slice count is
  \<open>slice_end - slice_start + 1\<close>.
\<close>

theorem crop_volume_z_range:
  fixes volume :: "'a ndarray" and slice_start slice_end :: int
  assumes "ndim volume = 3"
  defines "z \<equiv> int (shape volume ! 0)"
  defines "s \<equiv> max 0 slice_start"
  defines "e \<equiv> min (z - 1) slice_end"
  shows "0 \<le> s \<and> e \<le> z - 1
       \<and> ((\<exists>err. crop_volume_z volume slice_start slice_end = Inl err) \<longleftrightarrow> s > e)
       \<and> (s > e \<longrightarrow> crop_volume_z volume slice_start slice_end = Inl ValueError)
       \<and> (s \<le> e \<longrightarrow>
            (\<exists>out. crop_volume_z volume slice_start slice_end = Inr out
               \<and> shape out = [nat (e - s + 1), shape volume ! 1, shape volume ! 2]
               \<and> (\<forall>k < nat (e - s + 1). take_axis0 out k = take_axis0 volume (nat s + k))))
       \<and> (0 \<le> slice_start \<and> slice_start \<le> slice_end \<and> slice_end < z \<longrightarrow>
            (\<exists>out. crop_volume_z volume slice_start slice_end = Inr out
               \<and> int (shape out ! 0) = slice_end - slice_start + 1
               \<and> shape out ! 1 = shape volume ! 1 \<and> shape out ! 2 = shape volume ! 2))"
proof -
  have sh: "shape volume = [shape volume ! 0, shape volume ! 1, shape volume ! 2]"
    using assms(1) by (rule shape3)
  have hd: "hd (shape volume) = shape volume ! 0"
    and tl: "tl (shape volume) = [shape volume ! 1, shape volume ! 2]"
    using sh by (metis list.sel(1), metis list.sel(3))
  have bounds: "0 \<le> s" "e \<le> z - 1" by (simp_all add: s_def e_def)
  have crop: "crop_volume_z volume slice_start slice_end =
        (if s > e then Inl ValueError else Inr (slice_axis0 volume s (e + 1)))"
    using assms(1) by (simp add: crop_volume_z_def Let_def s_def e_def z_def)
  have ok: "shape (slice_axis0 volume s (e + 1))
              = [nat (e - s + 1), shape volume ! 1, shape volume ! 2]
          \<and> (\<forall>k < nat (e - s + 1).
                take_axis0 (slice_axis0 volume s (e + 1)) k = take_axis0 volume (nat s + k))"
    if le: "s \<le> e"
  proof -
    have lo: "slice_bound (shape volume ! 0) s = nat s"
      using bounds le by (intro slice_bound_in) (simp_all add: z_def)
    have hi: "slice_bound (shape volume ! 0) (e + 1) = nat (e + 1)"
      using bounds le by (intro slice_bound_in) (simp_all add: z_def)
    have cnt: "nat (e + 1) - nat s = nat (e - s + 1)" using bounds le by simp
    have shp: "shape (slice_axis0 volume s (e + 1))
               = [nat (e - s + 1), shape volume ! 1, shape volume ! 2]"
      by (simp add: slice_axis0_def Let_def hd tl lo hi cnt)
    have planes: "take_axis0 (slice_axis0 volume s (e + 1)) k = take_axis0 volume (nat s + k)"
      if "k < nat (e - s + 1)" for k
    proof -
      have "k < nat (e + 1) - nat s" using that cnt by simp
      from take_axis0_slice[OF this, of "shape volume ! 1 * (shape volume ! 2)" "nat s"
          "flat volume"]
      show ?thesis
        by (simp add: take_axis0_def shp slice_axis0_def Let_def hd tl lo hi mult.assoc)
    qed
    show ?thesis using shp planes by simp
  qed
  have inb: "s = slice_start \<and> e = slice_end"
    if "0 \<le> slice_start \<and> slice_start \<le> slice_end \<and> slice_end < z"
    using that by (simp add: s_def e_def)
  show ?thesis
  proof (intro conjI impI)
    show "0 \<le> s" "e \<le> z - 1" by (rule bounds)+
    show "(\<exists>err. crop_volume_z volume slice_start slice_end = Inl err) \<longleftrightarrow> s > e"
      by (simp add: crop)
    show "crop_volume_z volume slice_start slice_end = Inl ValueError" if "s > e"
      using that by (simp add: crop)
    show "\<exists>out. crop_volume_z volume slice_start slice_end = Inr out
               \<and> shape out = [nat (e - s + 1), shape volume ! 1, shape volume ! 2]
               \<and> (\<forall>k < nat (e - s + 1). take_axis0 out k = take_axis0 volume (nat s + k))"
      if "s \<le> e" using that ok crop by simp
    show "\<exists>out. crop_volume_z volume slice_start slice_end = Inr out
               \<and> int (shape out ! 0) = slice_end - slice_start + 1
               \<and> shape out ! 1 = shape volume ! 1 \<and> shape out ! 2 = shape volume ! 2"
      if h: "0 \<le> slice_start \<and> slice_start \<le> slice_end \<and> slice_end < z"
    proof -
      from inb[OF h] h have "s \<le> e" by simp
      from ok[OF this] crop \<open>s \<le> e\<close> inb[OF h] h show ?thesis by simp
    qed
  qed
qed

text \<open>
  Witness for C5: four slices of one row and two columns. Slices 1..2 are returned as they
  are; the range -3..9 is clamped to the whole volume; the range 3..1 fails.
\<close>

theorem crop_volume_z_range_witness:
  "ndim vol412 = 3
   \<and> crop_volume_z vol412 1 2 = Inr \<lparr>shape = [2, 1, 2], flat = [2, 3, 4, 5]\<rparr>
   \<and> crop_volume_z vol412 (-3) 9 = Inr vol412
   \<and> crop_volume_z vol412 3 1 = Inl ValueError"
proof -
  have h: "ndim vol412 = 3" by (simp add: ndim_def vol412_def)
  from crop_volume_z_range[OF h, of 1 2] crop_volume_z_range[OF h, of 3 1]
  show ?thesis
    by (simp add: crop_volume_z_def slice_axis0_def slice_bound_def ndim_def vol412_def Let_def)
qed

subsection \<open>Multi-planar slices\<close>





subsection \<open>Series assembly\<close>





text \<open>
  With two decodable slices the series assembles: the broken file is skipped, the slices
  are ordered by position, the thickness falls back to the first gap and the stored values
  become Hounsfield units.
\<close>

lemma load_dicom_series_two_slices:
  "load_dicom_series two_slice_fs ''app/Datasets/c1'' =
     Inr \<lparr>ser_volume = \<lparr>shape = [2, 1, 2], flat = [-1000, 0, 100, 0]\<rparr>,
          ser_datasets = [slice_ds 1 None [24, 1024], slice_ds 3 None [1124, 1024]],
          ser_z_positions = [1, 3], ser_pixel_spacing = (1, 1), ser_slice_thickness = 2,
          ser_orientation = [1, 0, 0, 0, 1, 0], ser_origin = [0, 0, 1],
          ser_rows = 1, ser_cols = 2\<rparr>"
  by code_simp

subsection \<open>Mesh extraction\<close>

lemma generate_stl_never_value_error:
  "fst (generate_stl lib temp_files vtk_image hu name smooth smoothing_iterations) \<noteq> Inl ValueError"
  by (simp add: generate_stl_def split: prod.splits sum.splits)

text \<open>
  Claim C3. When the isosurface at the threshold has no point, the body of \<open>generate_stl\<close>
  raises \<open>ValueError\<close>, and the handler around the body turns it into \<open>RuntimeError\<close>: the
  caller sees the processing error, never the no-surface error.
\<close>

theorem generate_stl_empty_surface_is_runtime_error:
  assumes "GetNumberOfPoints lib (FlyingEdges3D lib vtk_image (real_of_int hu)) = 0"
  shows "generate_stl_try lib temp_files vtk_image hu name smooth smoothing_iterations
           = (Inl ValueError, temp_files)
       \<and> generate_stl lib temp_files vtk_image hu name smooth smoothing_iterations
           = (Inl RuntimeError, temp_files)"
  using assms by (simp add: generate_stl_def generate_stl_try_def)

text \<open>Witness for C3: the threshold 200 HU on the all-air volume.\<close>

theorem generate_stl_empty_surface_is_runtime_error_witness:
  "GetNumberOfPoints toy_vtk (FlyingEdges3D toy_vtk air_volume (real_of_int 200)) = 0
   \<and> generate_stl toy_vtk {} air_volume 200 ''bone'' True 10 = (Inl RuntimeError, {})"
proof -
  have h: "GetNumberOfPoints toy_vtk (FlyingEdges3D toy_vtk air_volume (real_of_int 200)) = 0"
    by (simp add: toy_vtk_def air_volume_def)
  from generate_stl_empty_surface_is_runtime_error[OF h, of "{}" "''bone''" True 10] h
  show ?thesis by simp
qed

subsection \<open>The volume cache\<close>

lemma cache_hit:
  "map_of cache (cache_key_of case_id use_planning recon_id) = Some entry \<Longrightarrow>
   get_cached_volume cfg fs studies cache case_id use_planning recon_id
     = (Inr entry, studies, cache)"
  by (simp add: get_cached_volume_def)

lemma cache_holds_result:
  assumes "get_cached_volume cfg fs studies cache case_id use_planning recon_id
           = (Inr entry, studies', cache')"
  shows "map_of cache' (cache_key_of case_id use_planning recon_id) = Some entry"
  using assms
  by (auto simp: get_cached_volume_def Let_def
      split: option.splits sum.splits prod.splits if_splits)

text \<open>A request that succeeded is a hit when it is repeated: same entry, nothing reloaded.\<close>

lemma cache_repeat:
  assumes "get_cached_volume cfg fs studies cache case_id use_planning recon_id
           = (Inr entry, studies', cache')"
  shows "get_cached_volume cfg fs studies' cache' case_id use_planning recon_id
         = (Inr entry, studies', cache')"
  using cache_holds_result[OF assms] by (rule cache_hit)

lemma length_update_le: "length (AList.update k v xs) \<le> Suc (length xs)"
  by (induction xs) auto

lemma length_delete_hd: "xs \<noteq> [] \<Longrightarrow> length (AList.delete (fst (hd xs)) xs) < length xs"
  by (cases xs) (auto simp: AList.delete_eq le_imp_less_Suc)

lemma update_nonempty: "AList.update k v xs \<noteq> []"
  by (cases xs) auto

text \<open>A cache of at most three entries holds at most three after any request.\<close>

lemma cache_bounded:
  assumes "length cache \<le> 3"
  shows "length (snd (snd (get_cached_volume cfg fs studies cache case_id use_planning
                             recon_id))) \<le> 3"
proof -
  let ?k = "cache_key_of case_id use_planning recon_id"
  have "length (if length (AList.update ?k e cache) > 3
                then AList.delete (fst (hd (AList.update ?k e cache))) (AList.update ?k e cache)
                else AList.update ?k e cache) \<le> 3" for e
    using length_update_le[of ?k e cache] length_delete_hd[OF update_nonempty, of ?k e cache]
      assms
    by auto
  then show ?thesis using assms
    by (auto simp: get_cached_volume_def Let_def split: option.splits sum.splits prod.splits)
qed

text \<open>Keys that differ give entries of their own: a store under one key leaves the other.\<close>

lemma cache_other_key_kept:
  assumes "cache_key_of c1 p1 r1 \<noteq> cache_key_of c2 p2 r2"
    and "map_of cache (cache_key_of c1 p1 r1) = None"
    and "length cache < 3"
  shows "map_of (snd (snd (get_cached_volume cfg fs studies cache c1 p1 r1)))
           (cache_key_of c2 p2 r2) = map_of cache (cache_key_of c2 p2 r2)"
proof -
  have small: "\<not> 3 < length (AList.update (cache_key_of c1 p1 r1) e cache)" for e
    using length_update_le[of "cache_key_of c1 p1 r1" e cache] assms(3) by simp
  show ?thesis using assms(1,2)
    by (auto simp: get_cached_volume_def Let_def update_conv' small
        split: option.splits sum.splits prod.splits)
qed

lemma raw_request:
  "fst (get_cached_volume demo_cfg two_slice_fs [] [] ''c1'' True None) = Inr raw_entry
   \<and> snd (snd (get_cached_volume demo_cfg two_slice_fs [] [] ''c1'' True None))
       = [(''c1_True_none'', raw_entry)]"
  by code_simp

lemma recon_none_missing:
  "fst (get_cached_volume demo_cfg two_slice_fs studies [] ''c1'' True (Some ''none''))
     = Inl (HTTPException 404)"
  by (simp add: get_cached_volume_def load_volume_def truthy_def load_recon_volume_def Let_def
      path_exists_def isdir_def isfile_def cache_key_of_def two_slice_fs_def demo_cfg_def
      PLANNING_ROOT_def path_join_def safe_id_def replace_char_def)

lemma recon_none_key: "cache_key_of ''c1'' True (Some ''none'') = ''c1_True_none''"
  by (simp add: cache_key_of_def truthy_def str_bool_def)

text \<open>
  Claim C4, at the input where it fails. The raw volume of case \<open>c1\<close> is requested and
  cached. A request for the reconstruction named \<open>none\<close> of the same case is a different
  tuple; no such reconstruction exists, and on an empty cache the request ends in 404. After
  the raw request it is served the raw volume's entry: both tuples format to the key
  \<open>c1_True_none\<close>.
\<close>

theorem get_cached_volume_key_collision:
  "(''c1'', True, None) \<noteq> (''c1'', True, Some ''none'')
   \<and> cache_key_of ''c1'' True None = cache_key_of ''c1'' True (Some ''none'')
   \<and> fst (get_cached_volume demo_cfg two_slice_fs [] [] ''c1'' True None) = Inr raw_entry
   \<and> fst (get_cached_volume demo_cfg two_slice_fs []
             (snd (snd (get_cached_volume demo_cfg two_slice_fs [] [] ''c1'' True None)))
             ''c1'' True (Some ''none'')) = Inr raw_entry
   \<and> fst (get_cached_volume demo_cfg two_slice_fs [] [] ''c1'' True (Some ''none''))
       = Inl (HTTPException 404)"
proof -
  have k: "cache_key_of ''c1'' True None = ''c1_True_none''"
    by (simp add: cache_key_of_def truthy_def str_bool_def)
  have hit: "get_cached_volume demo_cfg two_slice_fs [] [(''c1_True_none'', raw_entry)]
               ''c1'' True (Some ''none'') = (Inr raw_entry, [], [(''c1_True_none'', raw_entry)])"
    by (rule cache_hit) (simp add: recon_none_key)
  show ?thesis
    using raw_request recon_none_missing[of "[]"] hit by (simp add: k recon_none_key)
qed

subsection \<open>Reconstruction\<close>






lemma fs_files_makedirs [simp]: "fs_files (makedirs fs d) = fs_files fs"
  by (simp add: makedirs_def)

lemma isfile_makedirs [simp]: "isfile (makedirs fs d) p = isfile fs p"
  by (simp add: isfile_def)

lemma isdir_makedirs: "isdir fs p \<Longrightarrow> isdir (makedirs fs d) p"
  by (simp add: isdir_def makedirs_def)

lemma path_exists_makedirs: "path_exists fs p \<Longrightarrow> path_exists (makedirs fs d) p"
  by (auto simp: path_exists_def isdir_makedirs)

lemma isfile_write_file: "isfile (write_file fs p f) q \<longleftrightarrow> q = p \<or> isfile fs q"
  by (simp add: isfile_def write_file_def update_conv')

lemma isfile_fold_write:
  "isfile fs q \<Longrightarrow> isfile (fold (\<lambda>(p, f) fs'. write_file fs' p f) ws fs) q"
  by (induction ws arbitrary: fs) (auto simp: isfile_write_file)

lemma isfile_save_as_dicom_series:
  "isfile fs q \<Longrightarrow> isfile (save_as_dicom_series fs img d) q"
  by (simp add: save_as_dicom_series_def isfile_fold_write)

text \<open>A reconstruction that succeeds leaves the volume artifact on disk.\<close>

lemma reconstruct_leaves_artifact:
  assumes "reconstruct cfg ops fs case_id thickness k use_planning planning_data output_path
             dicom_out_dir = (Inr u, fs')"
  shows "isfile fs' output_path"
  using assms
  by (auto simp: reconstruct_def Let_def isfile_save_as_dicom_series isfile_write_file
      split: sum.splits if_splits)

lemma apply_reconstruction_leaves_artifact:
  assumes "apply_reconstruction cfg ops float_str fs request = (Inr d, fs')"
  shows "path_exists fs' (d_volume_url d)"
proof -
  obtain case_id thickness where
    c: "pl_case_id request = Some case_id" and t: "pl_slice_thickness_mm request = Some thickness"
    using assms by (auto simp: apply_reconstruction_def split: option.splits)
  let ?out = "output_path_of cfg float_str case_id thickness (kernel_of request)"
  obtain pd where pd: "resolve_planning cfg fs case_id (use_planning_of request)
                         (pl_planning request) = Inr pd"
    using assms c t by (auto simp: apply_reconstruction_def Let_def split: sum.splits)
  have url: "d_volume_url d = ?out"
    using assms c t pd
    by (auto simp: apply_reconstruction_def Let_def describe_def
        split: sum.splits if_splits prod.splits)
  show ?thesis
  proof (cases "path_exists (makedirs fs (recon_dir_of cfg case_id)) ?out")
    case True
    then show ?thesis using assms c t pd
      by (simp add: apply_reconstruction_def Let_def url)
  next
    case False
    then obtain u where "reconstruct cfg ops (makedirs fs (recon_dir_of cfg case_id)) case_id
        thickness (kernel_of request) (use_planning_of request) pd ?out
        (path_join (recon_dir_of cfg case_id)
           (recon_id_of float_str thickness (kernel_of request))) = (Inr u, fs')"
      using assms c t pd
      by (auto simp: apply_reconstruction_def Let_def split: sum.splits prod.splits)
    from reconstruct_leaves_artifact[OF this] show ?thesis
      by (simp add: url path_exists_def)
  qed
qed

text \<open>
  Claim C1. When the artifact of the request's reconstruction id is on disk and the plan in
  effect can be read, the route returns the descriptor of that artifact: its id is
  \<open>ST_{thickness}_K_{kernel}\<close>, its volume is the artifact's path, and both are fixed by the
  case, the thickness and the kernel alone, whatever plan is now in effect. No file is
  written, and the answer is the same for every filter library: the pipeline is not run.
\<close>

theorem apply_reconstruction_idempotent:
  assumes "pl_case_id request = Some case_id"
    and "pl_slice_thickness_mm request = Some thickness"
    and "path_exists fs (output_path_of cfg float_str case_id thickness (kernel_of request))"
    and "resolve_planning cfg fs case_id (use_planning_of request) (pl_planning request)
           = Inr planning_data"
  shows "\<exists>d fs'. apply_reconstruction cfg ops float_str fs request = (Inr d, fs')
           \<and> d_recon_id d = ''ST_'' @ str_num float_str thickness @ ''_K_'' @ kernel_of request
           \<and> d_volume_url d = output_path_of cfg float_str case_id thickness (kernel_of request)
           \<and> d_dicom_series_url d
               = ''/storage/plans/'' @ safe_id case_id @ ''/recon/'' @ d_recon_id d @ ''/''
           \<and> d_planning_ref d = planning_data
           \<and> fs_files fs' = fs_files fs
           \<and> apply_reconstruction cfg ops' float_str fs request = (Inr d, fs')"
  using assms path_exists_makedirs[OF assms(3), of "recon_dir_of cfg case_id"]
  by (simp add: apply_reconstruction_def Let_def describe_def recon_id_of_def)

lemma bone_output_path:
  "output_path_of demo_cfg no_float_str ''c1'' (PyInt 5) ''bone''
     = ''app/storage/plans/c1/recon/ST_5_K_bone.nii''"
  by code_simp

lemma c1_plan_path: "plan_path_of demo_cfg ''c1'' = ''app/storage/plans/c1.json''"
  by code_simp

lemma recon_fs_artifact:
  "path_exists (recon_fs plan) (output_path_of demo_cfg no_float_str ''c1'' (PyInt 5) ''bone'')"
  by (simp add: bone_output_path path_exists_def isfile_def recon_fs_def)

lemma recon_fs_plan:
  "resolve_planning demo_cfg (recon_fs plan) ''c1'' True None = Inr (Some plan)"
  by (simp add: resolve_planning_def c1_plan_path path_exists_def isfile_def recon_fs_def
      read_plan_def)

text \<open>
  Witness for C1: the 5 mm bone reconstruction of \<open>c1\<close> is on disk. With plan A on file and
  with plan B on file the request returns the same artifact, and the case directory of
  \<open>c1\<close>, which the pipeline would have to read, does not even exist.
\<close>

theorem apply_reconstruction_idempotent_witness:
  "fst (apply_reconstruction demo_cfg toy_sitk no_float_str (recon_fs plan_a) bone_request)
     = Inr \<lparr>d_type = ''reconstruction'', d_case_id = ''c1'', d_recon_id = ''ST_5_K_bone'',
            d_volume_url = ''app/storage/plans/c1/recon/ST_5_K_bone.nii'',
            d_dicom_series_url = ''/storage/plans/c1/recon/ST_5_K_bone/'',
            d_kernel = ''bone'', d_slice_thickness_mm = PyInt 5,
            d_planning_ref = Some plan_a, d_used_planning = True\<rparr>
   \<and> fst (apply_reconstruction demo_cfg toy_sitk no_float_str (recon_fs plan_b) bone_request)
     = Inr \<lparr>d_type = ''reconstruction'', d_case_id = ''c1'', d_recon_id = ''ST_5_K_bone'',
            d_volume_url = ''app/storage/plans/c1/recon/ST_5_K_bone.nii'',
            d_dicom_series_url = ''/storage/plans/c1/recon/ST_5_K_bone/'',
            d_kernel = ''bone'', d_slice_thickness_mm = PyInt 5,
            d_planning_ref = Some plan_b, d_used_planning = True\<rparr>
   \<and> fs_files (snd (apply_reconstruction demo_cfg toy_sitk no_float_str (recon_fs plan_b)
                       bone_request)) = fs_files (recon_fs plan_b)
   \<and> listdir (recon_fs plan_b) ''app/Datasets/c1'' = Inl FileNotFoundError"
proof -
  have r: "pl_case_id bone_request = Some ''c1''"
    "pl_slice_thickness_mm bone_request = Some (PyInt 5)"
    "kernel_of bone_request = ''bone''" "use_planning_of bone_request = True"
    "pl_planning bone_request = None"
    by (simp_all add: bone_request_def kernel_of_def use_planning_of_def)
  have a: "path_exists (recon_fs plan)
             (output_path_of demo_cfg no_float_str ''c1'' (PyInt 5) (kernel_of bone_request))"
    for plan by (simp add: r recon_fs_artifact)
  have p: "resolve_planning demo_cfg (recon_fs plan) ''c1'' (use_planning_of bone_request)
             (pl_planning bone_request) = Inr (Some plan)" for plan
    by (simp add: r recon_fs_plan)
  have l: "listdir (recon_fs plan_b) ''app/Datasets/c1'' = Inl FileNotFoundError"
    by (simp add: listdir_def isdir_def isfile_def recon_fs_def)
  have ea: "fst (apply_reconstruction demo_cfg toy_sitk no_float_str (recon_fs plan_a)
                   bone_request)
     = Inr \<lparr>d_type = ''reconstruction'', d_case_id = ''c1'', d_recon_id = ''ST_5_K_bone'',
            d_volume_url = ''app/storage/plans/c1/recon/ST_5_K_bone.nii'',
            d_dicom_series_url = ''/storage/plans/c1/recon/ST_5_K_bone/'',
            d_kernel = ''bone'', d_slice_thickness_mm = PyInt 5,
            d_planning_ref = Some plan_a, d_used_planning = True\<rparr>"
    by code_simp
  have eb: "fst (apply_reconstruction demo_cfg toy_sitk no_float_str (recon_fs plan_b)
                   bone_request)
     = Inr \<lparr>d_type = ''reconstruction'', d_case_id = ''c1'', d_recon_id = ''ST_5_K_bone'',
            d_volume_url = ''app/storage/plans/c1/recon/ST_5_K_bone.nii'',
            d_dicom_series_url = ''/storage/plans/c1/recon/ST_5_K_bone/'',
            d_kernel = ''bone'', d_slice_thickness_mm = PyInt 5,
            d_planning_ref = Some plan_b, d_used_planning = True\<rparr>"
    by code_simp
  from apply_reconstruction_idempotent[OF r(1,2) a[of plan_a] p[of plan_a],
         where ops = toy_sitk and ops' = toy_sitk]
       apply_reconstruction_idempotent[OF r(1,2) a[of plan_b] p[of plan_b],
         where ops = toy_sitk and ops' = toy_sitk] l ea eb
  show ?thesis by auto
qed

text \<open>
  Two calls in a row: after a call that succeeded, the same request with any plan that can
  be read returns a descriptor of the same artifact and writes no file.
\<close>

lemma apply_reconstruction_second_call:
  assumes first: "apply_reconstruction cfg ops float_str fs request = (Inr d, fs1)"
    and plan: "resolve_planning cfg fs1 (d_case_id d) (use_planning_of request)
                 (pl_planning request) = Inr planning_data"
  shows "\<exists>d2 fs2. apply_reconstruction cfg ops float_str fs1 request = (Inr d2, fs2)
           \<and> d_recon_id d2 = d_recon_id d \<and> d_volume_url d2 = d_volume_url d
           \<and> d_dicom_series_url d2 = d_dicom_series_url d
           \<and> fs_files fs2 = fs_files fs1"
proof -
  obtain case_id thickness where
    c: "pl_case_id request = Some case_id" and t: "pl_slice_thickness_mm request = Some thickness"
    using first by (auto simp: apply_reconstruction_def split: option.splits)
  have d: "d_case_id d = case_id"
       "d_recon_id d = recon_id_of float_str thickness (kernel_of request)"
       "d_volume_url d = output_path_of cfg float_str case_id thickness (kernel_of request)"
       "d_dicom_series_url d = ''/storage/plans/'' @ safe_id case_id @ ''/recon/''
                             @ recon_id_of float_str thickness (kernel_of request) @ ''/''"
    using first c t
    by (auto simp: apply_reconstruction_def Let_def describe_def
        split: sum.splits if_splits prod.splits)
  have ex: "path_exists fs1 (output_path_of cfg float_str case_id thickness (kernel_of request))"
    using apply_reconstruction_leaves_artifact[OF first] by (simp add: d)
  show ?thesis
    using c t ex plan path_exists_makedirs[OF ex, of "recon_dir_of cfg case_id"]
    by (simp add: apply_reconstruction_def Let_def describe_def d)
qed


end
